theory Spec2Isabelle
  imports Main "HOL-Library.Word" "HOL-Library.Char_ord" "HOL-Library.List_Lexorder"
begin

section \<open>ORPort cells of stem.client.cell\<close>

text \<open>
  The module \<^verbatim>\<open>stem/client/cell.py\<close> defines a class per cell command. Every class
  carries the attributes \<^verbatim>\<open>NAME\<close>, \<^verbatim>\<open>VALUE\<close> and \<^verbatim>\<open>IS_FIXED_SIZE\<close>, and is
  derived either from \<^verbatim>\<open>Cell\<close> or from \<^verbatim>\<open>CircuitCell\<close>. A class is modelled by the
  record of its attributes; the field \<open>circuit\<close> records that the class is
  \<^verbatim>\<open>CircuitCell\<close> or derives from it, so that its \<^verbatim>\<open>_pack\<close> is
  \<^verbatim>\<open>CircuitCell._pack\<close>. Bytes are 8-bit words, Python integers are \<open>int\<close>.
\<close>

type_synonym byte = "8 word"

record cell_class =
  NAME :: string
  VALUE :: int
  IS_FIXED_SIZE :: bool
  circuit :: bool

subsection \<open>The classes, in the order of the source\<close>

definition Cell :: cell_class where
  "Cell = \<lparr>NAME = ''UNKNOWN'', VALUE = -1, IS_FIXED_SIZE = False, circuit = False\<rparr>"

definition CircuitCell :: cell_class where
  "CircuitCell = \<lparr>NAME = ''UNKNOWN'', VALUE = -1, IS_FIXED_SIZE = False, circuit = True\<rparr>"

definition PaddingCell :: cell_class where
  "PaddingCell = \<lparr>NAME = ''PADDING'', VALUE = 0, IS_FIXED_SIZE = True, circuit = False\<rparr>"

definition CreateCell :: cell_class where
  "CreateCell = \<lparr>NAME = ''CREATE'', VALUE = 1, IS_FIXED_SIZE = True, circuit = True\<rparr>"

definition CreatedCell :: cell_class where
  "CreatedCell = \<lparr>NAME = ''CREATED'', VALUE = 2, IS_FIXED_SIZE = True, circuit = True\<rparr>"

definition RelayCell :: cell_class where
  "RelayCell = \<lparr>NAME = ''RELAY'', VALUE = 3, IS_FIXED_SIZE = True, circuit = True\<rparr>"

definition DestroyCell :: cell_class where
  "DestroyCell = \<lparr>NAME = ''DESTROY'', VALUE = 4, IS_FIXED_SIZE = True, circuit = True\<rparr>"

definition CreateFastCell :: cell_class where
  "CreateFastCell = \<lparr>NAME = ''CREATE_FAST'', VALUE = 5, IS_FIXED_SIZE = True, circuit = True\<rparr>"

definition CreatedFastCell :: cell_class where
  "CreatedFastCell = \<lparr>NAME = ''CREATED_FAST'', VALUE = 6, IS_FIXED_SIZE = True, circuit = True\<rparr>"

definition VersionsCell :: cell_class where
  "VersionsCell = \<lparr>NAME = ''VERSIONS'', VALUE = 7, IS_FIXED_SIZE = False, circuit = False\<rparr>"

definition NetinfoCell :: cell_class where
  "NetinfoCell = \<lparr>NAME = ''NETINFO'', VALUE = 8, IS_FIXED_SIZE = True, circuit = False\<rparr>"

definition RelayEarlyCell :: cell_class where
  "RelayEarlyCell = \<lparr>NAME = ''RELAY_EARLY'', VALUE = 9, IS_FIXED_SIZE = True, circuit = True\<rparr>"

definition Create2Cell :: cell_class where
  "Create2Cell = \<lparr>NAME = ''CREATE2'', VALUE = 10, IS_FIXED_SIZE = True, circuit = True\<rparr>"

definition Created2Cell :: cell_class where
  "Created2Cell = \<lparr>NAME = ''CREATED2'', VALUE = 11, IS_FIXED_SIZE = True, circuit = False\<rparr>"

definition PaddingNegotiateCell :: cell_class where
  "PaddingNegotiateCell =
     \<lparr>NAME = ''PADDING_NEGOTIATE'', VALUE = 12, IS_FIXED_SIZE = True, circuit = False\<rparr>"

definition VPaddingCell :: cell_class where
  "VPaddingCell = \<lparr>NAME = ''VPADDING'', VALUE = 128, IS_FIXED_SIZE = False, circuit = False\<rparr>"

definition CertsCell :: cell_class where
  "CertsCell = \<lparr>NAME = ''CERTS'', VALUE = 129, IS_FIXED_SIZE = False, circuit = False\<rparr>"

definition AuthChallengeCell :: cell_class where
  "AuthChallengeCell =
     \<lparr>NAME = ''AUTH_CHALLENGE'', VALUE = 130, IS_FIXED_SIZE = False, circuit = False\<rparr>"

definition AuthenticateCell :: cell_class where
  "AuthenticateCell =
     \<lparr>NAME = ''AUTHENTICATE'', VALUE = 131, IS_FIXED_SIZE = False, circuit = False\<rparr>"

definition AuthorizeCell :: cell_class where
  "AuthorizeCell = \<lparr>NAME = ''AUTHORIZE'', VALUE = 132, IS_FIXED_SIZE = False, circuit = False\<rparr>"

text \<open>The command classes (every class of the module but the two bases), in source order.\<close>

definition commands :: "cell_class list" where
  "commands =
     [PaddingCell, CreateCell, CreatedCell, RelayCell, DestroyCell, CreateFastCell,
      CreatedFastCell, VersionsCell, NetinfoCell, RelayEarlyCell, Create2Cell, Created2Cell,
      PaddingNegotiateCell, VPaddingCell, CertsCell, AuthChallengeCell, AuthenticateCell,
      AuthorizeCell]"

subsection \<open>Errors\<close>

text \<open>
  Every \<^verbatim>\<open>raise\<close> of the module is a constructor, with the values its message is
  formatted from:
  \<^item> \<open>StructError\<close>: \<^verbatim>\<open>struct.error\<close>, raised by \<^verbatim>\<open>struct.pack\<close> for a value outside
    the range of the format;
  \<^item> \<open>PayloadTooLarge name len limit\<close>: \<^verbatim>\<open>ValueError('Payload of %s is too large (%i
    bytes), must be less than %i')\<close>;
  \<^item> \<open>RequiresCircId name\<close>: \<^verbatim>\<open>ValueError('%s cells require a circ_id')\<close>;
  \<^item> \<open>InvalidCellType name\<close>: \<^verbatim>\<open>ValueError("'%s' isn't a valid cell type")\<close>;
  \<^item> \<open>InvalidCellValue value\<close>: \<^verbatim>\<open>ValueError("'%s' isn't a valid cell value")\<close>;
  \<^item> \<open>MissingArgument\<close>: the \<^verbatim>\<open>TypeError\<close> of a call that leaves out a parameter without a
    default.
\<close>

datatype error =
    StructError
  | PayloadTooLarge string nat nat
  | RequiresCircId string
  | InvalidCellType string
  | InvalidCellValue int
  | MissingArgument

subsection \<open>The field codec: struct.pack with the formats of stem.client.Pack\<close>

text \<open>
  Modelled from the spec: the constants \<^verbatim>\<open>Pack.CHAR\<close>, \<^verbatim>\<open>Pack.SHORT\<close>, \<^verbatim>\<open>Pack.LONG\<close>
  and \<^verbatim>\<open>ZERO\<close> are imported from \<^verbatim>\<open>stem.client\<close>, which is not among the sources.
  The spec describes them as big-endian write helpers for 1-, 2- and 4-byte unsigned
  fields and a zero-fill primitive. \<^verbatim>\<open>struct.pack\<close> of an unsigned format raises
  \<^verbatim>\<open>struct.error\<close> for a value that is negative or does not fit the width.
\<close>

datatype pack_format = Pack_CHAR | Pack_SHORT | Pack_LONG

fun width :: "pack_format \<Rightarrow> nat" where
  "width Pack_CHAR = 1"
| "width Pack_SHORT = 2"
| "width Pack_LONG = 4"

definition ZERO :: byte where
  "ZERO = 0"

text \<open>The \<open>n\<close> low bytes of \<open>v\<close>, most significant first.\<close>

fun be_bytes :: "nat \<Rightarrow> int \<Rightarrow> byte list" where
  "be_bytes 0 v = []"
| "be_bytes (Suc n) v = word_of_int (v div 2 ^ (8 * n)) # be_bytes n v"

definition struct_pack :: "pack_format \<Rightarrow> int \<Rightarrow> error + byte list" where
  "struct_pack fmt v =
     (if 0 \<le> v \<and> v < 2 ^ (8 * width fmt) then Inr (be_bytes (width fmt) v)
      else Inl StructError)"

subsection \<open>Cell._pack\<close>

text \<open>
  \<^verbatim>\<open>Cell._pack(cls, link_version, payload, circ_id = 0)\<close>. The three fields are packed
  in the order of the source, so that the first \<^verbatim>\<open>struct.error\<close> wins; a fixed-size
  class then checks the length and pads.
\<close>

definition Cell_pack :: "cell_class \<Rightarrow> int \<Rightarrow> byte list \<Rightarrow> int \<Rightarrow> error + byte list" where
  "Cell_pack cls link_version payload circ_id =
     (case struct_pack (if link_version > 3 then Pack_LONG else Pack_SHORT) circ_id of
        Inl e \<Rightarrow> Inl e
      | Inr packed_circ_id \<Rightarrow>
     (case struct_pack Pack_CHAR (VALUE cls) of
        Inl e \<Rightarrow> Inl e
      | Inr packed_command \<Rightarrow>
     (case (if IS_FIXED_SIZE cls then Inr [] else struct_pack Pack_SHORT (int (length payload))) of
        Inl e \<Rightarrow> Inl e
      | Inr packed_size \<Rightarrow>
          (let cell = packed_circ_id @ packed_command @ packed_size @ payload in
           if IS_FIXED_SIZE cls then
             (let fixed_cell_len = (if link_version > 3 then 514 else 512) in
              if length cell > fixed_cell_len
              then Inl (PayloadTooLarge (NAME cls) (length cell) fixed_cell_len)
              else Inr (cell @ replicate (fixed_cell_len - length cell) ZERO))
           else Inr cell))))"

subsection \<open>CircuitCell._pack\<close>

text \<open>\<^verbatim>\<open>str.startswith\<close>.\<close>

definition startswith :: "string \<Rightarrow> string \<Rightarrow> bool" where
  "startswith s p = (take (length p) s = p)"

text \<open>
  \<^verbatim>\<open>CircuitCell._pack(cls, link_version, payload, circ_id)\<close>, where \<^verbatim>\<open>circ_id\<close> may be
  \<^verbatim>\<open>None\<close>. Its body is two statements. The first is an \<^verbatim>\<open>if\<close> that assigns
  \<^verbatim>\<open>circ_id\<close>, with an \<^verbatim>\<open>else\<close> that raises: \<open>CircuitCell_pack_circ_id\<close> gives the
  value of \<^verbatim>\<open>circ_id\<close> after it, or the exception.
\<close>

definition CircuitCell_pack_circ_id :: "cell_class \<Rightarrow> int \<Rightarrow> int option \<Rightarrow> error + int" where
  "CircuitCell_pack_circ_id cls link_version circ_id =
     (if circ_id = None \<and> startswith (NAME cls) ''CREATE''
      then Inr (if link_version > 3 then 0x80000000 else 0x01)
      else Inl (RequiresCircId (NAME cls)))"

text \<open>
  The second is \<^verbatim>\<open>return Cell._pack(link_version, payload, circ_id)\<close>: the class method
  is taken from the class \<^verbatim>\<open>Cell\<close>, which binds \<^verbatim>\<open>cls\<close> to \<^verbatim>\<open>Cell\<close> itself, not to
  the class being packed.
\<close>

definition CircuitCell_pack ::
    "cell_class \<Rightarrow> int \<Rightarrow> byte list \<Rightarrow> int option \<Rightarrow> error + byte list" where
  "CircuitCell_pack cls link_version payload circ_id =
     (case CircuitCell_pack_circ_id cls link_version circ_id of
        Inl e \<Rightarrow> Inl e
      | Inr circ_id' \<Rightarrow> Cell_pack Cell link_version payload circ_id')"

subsection \<open>Calling _pack on a class\<close>

text \<open>
  \<^verbatim>\<open>cls._pack(link_version, payload, circ_id)\<close> as the program calls it on a class. The
  method is \<^verbatim>\<open>CircuitCell._pack\<close> for \<^verbatim>\<open>CircuitCell\<close> and the classes derived from it,
  which override it, and \<^verbatim>\<open>Cell._pack\<close> bound to the class itself for the others. The
  third argument is left out, \<^verbatim>\<open>None\<close>, or an integer:
  \<^item> \<^verbatim>\<open>Cell._pack\<close> has the default 0, and hands \<^verbatim>\<open>None\<close> to \<^verbatim>\<open>struct.pack\<close> in its
    first statement, which raises \<^verbatim>\<open>struct.error\<close>;
  \<^item> \<^verbatim>\<open>CircuitCell._pack\<close> has no default, so that leaving the argument out is a
    \<^verbatim>\<open>TypeError\<close>.
\<close>

datatype circ_id_arg = Omitted | PyNone | PyId int

definition cls_pack ::
    "cell_class \<Rightarrow> int \<Rightarrow> byte list \<Rightarrow> circ_id_arg \<Rightarrow> error + byte list" where
  "cls_pack cls link_version payload arg =
     (if circuit cls then
        (case arg of
           Omitted \<Rightarrow> Inl MissingArgument
         | PyNone \<Rightarrow> CircuitCell_pack cls link_version payload None
         | PyId circ_id \<Rightarrow> CircuitCell_pack cls link_version payload (Some circ_id))
      else
        (case arg of
           Omitted \<Rightarrow> Cell_pack cls link_version payload 0
         | PyNone \<Rightarrow> Inl StructError
         | PyId circ_id \<Rightarrow> Cell_pack cls link_version payload circ_id))"

subsection \<open>VersionsCell.pack\<close>

text \<open>The list comprehension \<^verbatim>\<open>[struct.pack(fmt, v) for v in versions]\<close>, joined.\<close>

fun pack_each :: "pack_format \<Rightarrow> int list \<Rightarrow> error + byte list" where
  "pack_each fmt [] = Inr []"
| "pack_each fmt (v # vs) =
     (case struct_pack fmt v of
        Inl e \<Rightarrow> Inl e
      | Inr b \<Rightarrow> (case pack_each fmt vs of Inl e \<Rightarrow> Inl e | Inr bs \<Rightarrow> Inr (b @ bs)))"

definition VersionsCell_pack :: "int list \<Rightarrow> error + byte list" where
  "VersionsCell_pack versions =
     (case pack_each Pack_SHORT versions of
        Inl e \<Rightarrow> Inl e
      | Inr payload \<Rightarrow> Cell_pack VersionsCell 3 payload 0)"

subsection \<open>Cell.by_name and Cell.by_value\<close>

text \<open>
  Both scan \<^verbatim>\<open>inspect.getmembers(sys.modules[__name__])\<close>: the names bound in the
  module, sorted by name, with their values. A member is a class of the module or
  another object (an imported module, \<^verbatim>\<open>Pack\<close>, \<^verbatim>\<open>UNDEFINED\<close>, \<^verbatim>\<open>ZERO\<close>), taken to have
  no attribute \<^verbatim>\<open>NAME\<close> or \<^verbatim>\<open>VALUE\<close>. The attributes the interpreter adds to a module
  (\<^verbatim>\<open>__name__\<close>, \<^verbatim>\<open>__doc__\<close>, ...) have neither attribute and sort after every
  capitalised name, behind \<^verbatim>\<open>Pack\<close>; they are left out.
\<close>

datatype member = Class cell_class | Other

definition module_namespace :: "(string \<times> member) list" where
  "module_namespace =
     [(''collections'', Other), (''inspect'', Other), (''struct'', Other), (''sys'', Other),
      (''UNDEFINED'', Other), (''ZERO'', Other), (''Pack'', Other),
      (''Cell'', Class Cell), (''CircuitCell'', Class CircuitCell),
      (''PaddingCell'', Class PaddingCell), (''CreateCell'', Class CreateCell),
      (''CreatedCell'', Class CreatedCell), (''RelayCell'', Class RelayCell),
      (''DestroyCell'', Class DestroyCell), (''CreateFastCell'', Class CreateFastCell),
      (''CreatedFastCell'', Class CreatedFastCell), (''VersionsCell'', Class VersionsCell),
      (''NetinfoCell'', Class NetinfoCell), (''RelayEarlyCell'', Class RelayEarlyCell),
      (''Create2Cell'', Class Create2Cell), (''Created2Cell'', Class Created2Cell),
      (''PaddingNegotiateCell'', Class PaddingNegotiateCell),
      (''VPaddingCell'', Class VPaddingCell), (''CertsCell'', Class CertsCell),
      (''AuthChallengeCell'', Class AuthChallengeCell),
      (''AuthenticateCell'', Class AuthenticateCell), (''AuthorizeCell'', Class AuthorizeCell)]"

definition getmembers :: "(string \<times> member) list" where
  "getmembers = sort_key fst module_namespace"

text \<open>
  A Python value that a key is compared with. The sentinel \<^verbatim>\<open>UNDEFINED\<close> comes from
  the package \<^verbatim>\<open>stem\<close>, which is not among the sources: it is the parameter \<open>undef\<close>
  of both lookups. \<^verbatim>\<open>getattr(cls, 'NAME', UNDEFINED)\<close> is the attribute of a class and
  the sentinel for any other member.
\<close>

datatype pyval = PyStr string | PyInt int

fun getattr_NAME :: "member \<Rightarrow> pyval \<Rightarrow> pyval" where
  "getattr_NAME (Class c) undef = PyStr (NAME c)"
| "getattr_NAME Other undef = undef"

fun getattr_VALUE :: "member \<Rightarrow> pyval \<Rightarrow> pyval" where
  "getattr_VALUE (Class c) undef = PyInt (VALUE c)"
| "getattr_VALUE Other undef = undef"

text \<open>The \<^verbatim>\<open>for\<close> loops: the first member that matches is returned.\<close>

fun scan_name :: "pyval \<Rightarrow> string \<Rightarrow> (string \<times> member) list \<Rightarrow> error + member" where
  "scan_name undef name [] = Inl (InvalidCellType name)"
| "scan_name undef name ((_, cls) # ms) =
     (if PyStr name = getattr_NAME cls undef then Inr cls else scan_name undef name ms)"

fun scan_value :: "pyval \<Rightarrow> int \<Rightarrow> (string \<times> member) list \<Rightarrow> error + member" where
  "scan_value undef v [] = Inl (InvalidCellValue v)"
| "scan_value undef v ((_, cls) # ms) =
     (if PyInt v = getattr_VALUE cls undef then Inr cls else scan_value undef v ms)"

definition by_name :: "pyval \<Rightarrow> string \<Rightarrow> error + member" where
  "by_name undef name = scan_name undef name getmembers"

definition by_value :: "pyval \<Rightarrow> int \<Rightarrow> error + member" where
  "by_value undef v = scan_value undef v getmembers"

text \<open>The classes among the members of the module, in the order of the scan.\<close>

fun classes_of :: "(string \<times> member) list \<Rightarrow> cell_class list" where
  "classes_of [] = []"
| "classes_of ((_, Class c) # ms) = c # classes_of ms"
| "classes_of ((_, Other) # ms) = classes_of ms"

subsection \<open>Decoding\<close>

text \<open>
  Modelled from the spec: the module's docstring announces \<^verbatim>\<open>unpack\<close>, but no class of
  the sources defines it. The definitions below follow section 4.3 of the specification
  (Generic Cell Framer, unpack) and the Cell of its data model: a command, a circuit id
  that is present if and only if the command is circuit-scoped, and a payload.
\<close>

record cell =
  cell_command :: cell_class
  cell_circuit_id :: "int option"
  cell_payload :: "byte list"

datatype unpack_error = UnknownCommandError int | TruncatedCellError

text \<open>
  Modelled from the spec: the read helper of the field codec, the unsigned value of a
  big-endian field.
\<close>

fun be_int :: "byte list \<Rightarrow> int" where
  "be_int [] = 0"
| "be_int (b # bs) = uint b * 2 ^ (8 * length bs) + be_int bs"

text \<open>
  Modelled from the spec: steps 1 to 5 of section 4.3. The circuit id field and the
  command byte are read, the command is resolved, and the payload is the remainder of
  the fixed frame or the declared number of bytes. The result is the cell and the count
  of bytes consumed. The command byte is resolved by the lookup of the source,
  \<^verbatim>\<open>Cell.by_value\<close>, with its sentinel \<open>undef\<close>; a value it does not find, or finds in a
  member that is no class, is an unknown command. The specification names the error
  for a variable-size payload that is cut short; the same error is used here for any
  buffer that ends before the cell does.
\<close>

definition unpack :: "pyval \<Rightarrow> int \<Rightarrow> byte list \<Rightarrow> unpack_error + (cell \<times> nat)" where
  "unpack undef link_version buf =
     (let w = (if link_version > 3 then 4 else 2) in
      if length buf < w + 1 then Inl TruncatedCellError
      else
        (let circ_id = be_int (take w buf);
             v = be_int (take 1 (drop w buf))
         in case by_value undef v of
              Inl e \<Rightarrow> Inl (UnknownCommandError v)
            | Inr Other \<Rightarrow> Inl (UnknownCommandError v)
            | Inr (Class cmd) \<Rightarrow>
                (let cid = (if circuit cmd then Some circ_id else None) in
                 if IS_FIXED_SIZE cmd then
                   (let fixed_len = (if link_version > 3 then 514 else 512) in
                    if length buf < fixed_len then Inl TruncatedCellError
                    else Inr (\<lparr>cell_command = cmd, cell_circuit_id = cid,
                               cell_payload = take (fixed_len - (w + 1)) (drop (w + 1) buf)\<rparr>,
                              fixed_len))
                 else if length buf < w + 3 then Inl TruncatedCellError
                 else
                   (let declared_length = nat (be_int (take 2 (drop (w + 1) buf))) in
                    if length buf < w + 3 + declared_length then Inl TruncatedCellError
                    else Inr (\<lparr>cell_command = cmd, cell_circuit_id = cid,
                               cell_payload = take declared_length (drop (w + 3) buf)\<rparr>,
                              w + 3 + declared_length)))))"

section \<open>Properties\<close>

lemmas class_defs =
  Cell_def CircuitCell_def PaddingCell_def CreateCell_def CreatedCell_def RelayCell_def
  DestroyCell_def CreateFastCell_def CreatedFastCell_def VersionsCell_def NetinfoCell_def
  RelayEarlyCell_def Create2Cell_def Created2Cell_def PaddingNegotiateCell_def
  VPaddingCell_def CertsCell_def AuthChallengeCell_def AuthenticateCell_def AuthorizeCell_def

lemma getmembers_sorted:
  "getmembers =
     [(''AuthChallengeCell'', Class AuthChallengeCell),
      (''AuthenticateCell'', Class AuthenticateCell), (''AuthorizeCell'', Class AuthorizeCell),
      (''Cell'', Class Cell), (''CertsCell'', Class CertsCell),
      (''CircuitCell'', Class CircuitCell), (''Create2Cell'', Class Create2Cell),
      (''CreateCell'', Class CreateCell), (''CreateFastCell'', Class CreateFastCell),
      (''Created2Cell'', Class Created2Cell), (''CreatedCell'', Class CreatedCell),
      (''CreatedFastCell'', Class CreatedFastCell), (''DestroyCell'', Class DestroyCell),
      (''NetinfoCell'', Class NetinfoCell), (''Pack'', Other),
      (''PaddingCell'', Class PaddingCell),
      (''PaddingNegotiateCell'', Class PaddingNegotiateCell), (''RelayCell'', Class RelayCell),
      (''RelayEarlyCell'', Class RelayEarlyCell), (''UNDEFINED'', Other),
      (''VPaddingCell'', Class VPaddingCell), (''VersionsCell'', Class VersionsCell),
      (''ZERO'', Other), (''collections'', Other), (''inspect'', Other), (''struct'', Other),
      (''sys'', Other)]"
  unfolding getmembers_def module_namespace_def by code_simp

subsection \<open>The field codec and the framer\<close>

lemma be_bytes_1: "be_bytes (Suc 0) v = [word_of_int v]"
  by simp

lemma be_bytes_2: "be_bytes 2 v = [word_of_int (v div 256), word_of_int v]"
  by (simp add: numeral_2_eq_2)

lemma be_bytes_4:
  "be_bytes 4 v =
     [word_of_int (v div 16777216), word_of_int (v div 65536), word_of_int (v div 256),
      word_of_int v]"
  by (simp add: eval_nat_numeral)

lemma length_be_bytes: "length (be_bytes n v) = n"
  by (induction n) simp_all

lemma command_VALUE_range: "cls \<in> set commands \<Longrightarrow> 0 \<le> VALUE cls \<and> VALUE cls < 256"
  by (auto simp: commands_def class_defs)

lemma Cell_pack_fixed:
  assumes fixed: "IS_FIXED_SIZE cls"
    and val: "0 \<le> VALUE cls" "VALUE cls < 256"
    and cid: "0 \<le> circ_id" "circ_id < (if link_version > 3 then 2 ^ 32 else 2 ^ 16)"
    and len: "length payload \<le> 509"
  shows "Cell_pack cls link_version payload circ_id =
           Inr (be_bytes (if link_version > 3 then 4 else 2) circ_id @ [word_of_int (VALUE cls)]
                @ payload @ replicate (509 - length payload) 0)"
proof (cases "link_version > 3")
  case True
  with cid have "struct_pack Pack_LONG circ_id = Inr (be_bytes 4 circ_id)"
    by (simp add: struct_pack_def)
  moreover from val have "struct_pack Pack_CHAR (VALUE cls) = Inr [word_of_int (VALUE cls)]"
    by (simp add: struct_pack_def)
  ultimately show ?thesis
    using True fixed len by (simp add: Cell_pack_def length_be_bytes ZERO_def)
next
  case False
  with cid have "struct_pack Pack_SHORT circ_id = Inr (be_bytes 2 circ_id)"
    by (simp add: struct_pack_def)
  moreover from val have "struct_pack Pack_CHAR (VALUE cls) = Inr [word_of_int (VALUE cls)]"
    by (simp add: struct_pack_def)
  ultimately show ?thesis
    using False fixed len by (simp add: Cell_pack_def length_be_bytes ZERO_def)
qed

lemma Cell_pack_oversize:
  assumes fixed: "IS_FIXED_SIZE cls"
    and val: "0 \<le> VALUE cls" "VALUE cls < 256"
    and cid: "0 \<le> circ_id" "circ_id < (if link_version > 3 then 2 ^ 32 else 2 ^ 16)"
    and len: "length payload > 509"
  shows "Cell_pack cls link_version payload circ_id =
           Inl (PayloadTooLarge (NAME cls)
                  ((if link_version > 3 then 4 else 2) + 1 + length payload)
                  (if link_version > 3 then 514 else 512))"
proof (cases "link_version > 3")
  case True
  with cid have "struct_pack Pack_LONG circ_id = Inr (be_bytes 4 circ_id)"
    by (simp add: struct_pack_def)
  moreover from val have "struct_pack Pack_CHAR (VALUE cls) = Inr [word_of_int (VALUE cls)]"
    by (simp add: struct_pack_def)
  ultimately show ?thesis
    using True fixed len by (simp add: Cell_pack_def length_be_bytes)
next
  case False
  with cid have "struct_pack Pack_SHORT circ_id = Inr (be_bytes 2 circ_id)"
    by (simp add: struct_pack_def)
  moreover from val have "struct_pack Pack_CHAR (VALUE cls) = Inr [word_of_int (VALUE cls)]"
    by (simp add: struct_pack_def)
  ultimately show ?thesis
    using False fixed len by (simp add: Cell_pack_def length_be_bytes)
qed

lemma Cell_pack_variable:
  assumes var: "\<not> IS_FIXED_SIZE cls"
    and val: "0 \<le> VALUE cls" "VALUE cls < 256"
    and cid: "0 \<le> circ_id" "circ_id < (if link_version > 3 then 2 ^ 32 else 2 ^ 16)"
    and len: "length payload < 65536"
  shows "Cell_pack cls link_version payload circ_id =
           Inr (be_bytes (if link_version > 3 then 4 else 2) circ_id @ [word_of_int (VALUE cls)]
                @ be_bytes 2 (int (length payload)) @ payload)"
proof -
  from cid have "struct_pack (if link_version > 3 then Pack_LONG else Pack_SHORT) circ_id =
      Inr (be_bytes (if link_version > 3 then 4 else 2) circ_id)"
    by (cases "link_version > 3") (simp_all add: struct_pack_def)
  moreover from val have "struct_pack Pack_CHAR (VALUE cls) = Inr [word_of_int (VALUE cls)]"
    by (simp add: struct_pack_def)
  moreover from len have "struct_pack Pack_SHORT (int (length payload)) =
      Inr (be_bytes 2 (int (length payload)))"
    by (simp add: struct_pack_def)
  ultimately show ?thesis
    using var by (simp add: Cell_pack_def)
qed

subsection \<open>Decoding what the framer emits\<close>

lemma be_int_be_bytes: "be_int (be_bytes n v) = v mod 2 ^ (8 * n)"
proof (induction n)
  case 0
  show ?case by simp
next
  case (Suc n)
  have "uint (word_of_int (v div 2 ^ (8 * n)) :: byte) = v div 2 ^ (8 * n) mod 256"
    by (simp add: uint_word_of_int)
  then have "be_int (be_bytes (Suc n) v) = 2 ^ (8 * n) * (v div 2 ^ (8 * n) mod 256) + v mod 2 ^ (8 * n)"
    using Suc by (simp add: length_be_bytes)
  also have "\<dots> = v mod (2 ^ (8 * n) * 256)"
    by (rule zmod_zmult2_eq [symmetric]) simp
  also have "(2::int) ^ (8 * n) * 256 = 2 ^ (8 * Suc n)"
    by (simp add: power_add)
  finally show ?case .
qed

lemma be_int_be_bytes_id: "0 \<le> v \<Longrightarrow> v < 2 ^ (8 * n) \<Longrightarrow> be_int (be_bytes n v) = v"
  by (simp add: be_int_be_bytes)

lemma be_int_byte: "0 \<le> v \<Longrightarrow> v < 256 \<Longrightarrow> be_int [word_of_int v] = v"
  using be_int_be_bytes_id [of v 1] by simp

lemma unpack_fixed_frame:
  assumes hdr: "length hdr = (if link_version > 3 then 4 else 2)"
    and cmd: "by_value undef (be_int [c]) = Inr (Class cmd)"
    and fixed: "IS_FIXED_SIZE cmd"
    and body: "length body = 509"
  shows "unpack undef link_version (hdr @ c # body @ rest) =
           Inr (\<lparr>cell_command = cmd,
                 cell_circuit_id = (if circuit cmd then Some (be_int hdr) else None),
                 cell_payload = body\<rparr>,
                if link_version > 3 then 514 else 512)"
proof (cases "link_version > 3")
  case True
  with hdr have "length hdr = 4" by simp
  with True cmd fixed body show ?thesis
    by (simp add: unpack_def Let_def)
next
  case False
  with hdr have "length hdr = 2" by simp
  with False cmd fixed body show ?thesis
    by (simp add: unpack_def Let_def)
qed

lemma unpack_variable_frame:
  assumes hdr: "length hdr = (if link_version > 3 then 4 else 2)"
    and cmd: "by_value undef (be_int [c]) = Inr (Class cmd)"
    and var: "\<not> IS_FIXED_SIZE cmd"
    and sz: "length sz = 2" "be_int sz = int (length body)"
  shows "unpack undef link_version (hdr @ c # sz @ body @ rest) =
           Inr (\<lparr>cell_command = cmd,
                 cell_circuit_id = (if circuit cmd then Some (be_int hdr) else None),
                 cell_payload = body\<rparr>,
                (if link_version > 3 then 4 else 2) + 3 + length body)"
proof (cases "link_version > 3")
  case True
  with hdr have "length hdr = 4" by simp
  with True cmd var sz show ?thesis
    by (simp add: unpack_def Let_def)
next
  case False
  with hdr have "length hdr = 2" by simp
  with False cmd var sz show ?thesis
    by (simp add: unpack_def Let_def)
qed

subsection \<open>The lookups\<close>

lemma by_name_unregistered:
  assumes "name \<noteq> ''UNKNOWN''" "PyStr name \<noteq> undef" "name \<notin> NAME ` set commands"
  shows "by_name undef name = Inl (InvalidCellType name)"
  using assms by (simp add: by_name_def getmembers_sorted commands_def class_defs)

lemma by_value_unregistered:
  assumes "v \<noteq> - 1" "PyInt v \<noteq> undef" "v \<notin> VALUE ` set commands"
  shows "by_value undef v = Inl (InvalidCellValue v)"
  using assms by (simp add: by_value_def getmembers_sorted commands_def class_defs)

lemma by_name_registered:
  assumes "c \<in> set commands" "PyStr (NAME c) \<noteq> undef"
  shows "by_name undef (NAME c) = Inr (Class c)"
  using assms unfolding commands_def by_name_def getmembers_sorted
  by (elim set_ConsD [elim_format] disjE) (simp_all add: class_defs)

lemma by_value_registered:
  assumes "c \<in> set commands" "PyInt (VALUE c) \<noteq> undef"
  shows "by_value undef (VALUE c) = Inr (Class c)"
  using assms unfolding commands_def by_value_def getmembers_sorted
  by (elim set_ConsD [elim_format] disjE) (simp_all add: class_defs)

subsection \<open>Packing\<close>

lemma pack_each_SHORT:
  "\<forall>v\<in>set versions. 0 \<le> v \<and> v < 65536 \<Longrightarrow>
     pack_each Pack_SHORT versions = Inr (concat (map (be_bytes 2) versions))"
  by (induction versions) (simp_all add: struct_pack_def)

lemma length_concat_be_bytes: "length (concat (map (be_bytes n) vs)) = n * length vs"
  by (induction vs) (simp_all add: length_be_bytes)

lemma CircuitCell_pack_no_id_rejected:
  "cls \<in> {RelayCell, DestroyCell, RelayEarlyCell} \<Longrightarrow>
     CircuitCell_pack cls link_version payload None = Inl (RequiresCircId (NAME cls))"
  by (auto simp: CircuitCell_pack_def CircuitCell_pack_circ_id_def startswith_def class_defs)

lemma Cell_pack_base_class: "Cell_pack Cell link_version payload circ_id = Inl StructError"
  by (simp add: Cell_pack_def struct_pack_def Cell_def split: sum.splits)

section \<open>The claims\<close>

text \<open>
  C1. When the caller supplies an explicit circuit id, \<^verbatim>\<open>CircuitCell._pack\<close> should use
  it unmodified and not fail because of it. The source does the opposite: the
  \<^verbatim>\<open>else\<close> of its only \<^verbatim>\<open>if\<close> raises whenever \<^verbatim>\<open>circ_id\<close> is not \<^verbatim>\<open>None\<close>. For every
  class, link version, payload and explicit id (zero included) the result is the
  \<^verbatim>\<open>ValueError\<close> "cells require a circ_id", and no byte is emitted.
\<close>

theorem CircuitCell_pack_explicit_id_raises:
  "CircuitCell_pack cls link_version payload (Some circ_id) = Inl (RequiresCircId (NAME cls))"
  by (simp add: CircuitCell_pack_def CircuitCell_pack_circ_id_def)

text \<open>
  C2. Packing a circuit-scoped command that does not initiate a circuit without an id
  should fail with the "require a circ_id" error. The source tests
  \<^verbatim>\<open>NAME.startswith('CREATE')\<close>, which also holds of CREATED and CREATED_FAST: for them
  an id is assigned as if they initiated the circuit, and the failure that follows is
  the \<^verbatim>\<open>struct.error\<close> of the framer called on the base class, not the missing-id
  error.
\<close>

theorem CircuitCell_pack_CREATED_without_id:
  "CircuitCell_pack_circ_id CreatedCell 3 None = Inr 1 \<and>
   CircuitCell_pack_circ_id CreatedFastCell 5 None = Inr 0x80000000 \<and>
   CircuitCell_pack CreatedCell 3 [] None = Inl StructError \<and>
   CircuitCell_pack CreatedCell 3 [] None \<noteq> Inl (RequiresCircId ''CREATED'')"
  by (simp add: CircuitCell_pack_def CircuitCell_pack_circ_id_def startswith_def
      CreatedCell_def CreatedFastCell_def Cell_pack_base_class)

text \<open>
  What a call of \<^verbatim>\<open>_pack\<close> on a class comes to. A class derived from \<^verbatim>\<open>CircuitCell\<close>
  never returns bytes: an explicit id and a missing id of a command that does not start
  with CREATE raise the "require a circ_id" error, and the others reach the framer with
  \<^verbatim>\<open>cls\<close> bound to \<^verbatim>\<open>Cell\<close>, whose \<^verbatim>\<open>VALUE\<close> of -1 no unsigned byte holds. A class
  derived from \<^verbatim>\<open>Cell\<close> reaches the framer bound to itself.
\<close>

lemma cls_pack_circuit_raises: "circuit cls \<Longrightarrow> \<exists>e. cls_pack cls link_version payload arg = Inl e"
  by (cases arg)
    (simp_all add: cls_pack_def CircuitCell_pack_def CircuitCell_pack_circ_id_def
      Cell_pack_base_class)

lemma cls_pack_Cell_class:
  "\<not> circuit cls \<Longrightarrow> cls_pack cls link_version payload Omitted = Cell_pack cls link_version payload 0"
  "\<not> circuit cls \<Longrightarrow>
     cls_pack cls link_version payload (PyId circ_id) = Cell_pack cls link_version payload circ_id"
  by (simp_all add: cls_pack_def)

lemma cls_pack_fixed_length:
  assumes "cls \<in> set commands" and "IS_FIXED_SIZE cls" and "\<not> circuit cls"
    and "length payload \<le> 509"
  shows "cls_pack cls link_version payload Omitted =
           Inr (be_bytes (if link_version > 3 then 4 else 2) 0 @ [word_of_int (VALUE cls)]
                @ payload @ replicate (509 - length payload) 0)"
proof -
  from assms(1) have "0 \<le> VALUE cls" "VALUE cls < 256"
    using command_VALUE_range by blast+
  with assms(2,4) have "Cell_pack cls link_version payload 0 =
      Inr (be_bytes (if link_version > 3 then 4 else 2) 0 @ [word_of_int (VALUE cls)]
           @ payload @ replicate (509 - length payload) 0)"
    by (intro Cell_pack_fixed) simp_all
  with assms(3) show ?thesis
    by (simp add: cls_pack_Cell_class)
qed

lemma cls_pack_payload_too_large:
  assumes "cls \<in> set commands" and "IS_FIXED_SIZE cls" and "\<not> circuit cls"
    and "length payload > 509"
  shows "cls_pack cls link_version payload Omitted =
           Inl (PayloadTooLarge (NAME cls)
                  ((if link_version > 3 then 4 else 2) + 1 + length payload)
                  (if link_version > 3 then 514 else 512))"
proof -
  from assms(1) have "0 \<le> VALUE cls" "VALUE cls < 256"
    using command_VALUE_range by blast+
  with assms(2,4) have "Cell_pack cls link_version payload 0 =
      Inl (PayloadTooLarge (NAME cls)
             ((if link_version > 3 then 4 else 2) + 1 + length payload)
             (if link_version > 3 then 514 else 512))"
    by (intro Cell_pack_oversize) simp_all
  with assms(3) show ?thesis
    by (simp add: cls_pack_Cell_class)
qed

text \<open>
  C4. Packing CREATE, CREATE_FAST or CREATE2 without an id should give a cell that
  carries the id 0x01 up to link version 3 and 0x80000000 above. The source chooses
  exactly this id, but then calls \<^verbatim>\<open>Cell._pack\<close> through the class \<^verbatim>\<open>Cell\<close>, so that the
  command byte is packed from the \<^verbatim>\<open>VALUE\<close> -1 of the base class: for every link version
  and payload the call raises \<^verbatim>\<open>struct.error\<close>, and no cell carries the id.
\<close>

theorem cls_pack_CREATE_without_id:
  "CircuitCell_pack_circ_id CreateCell link_version None =
     Inr (if link_version \<le> 3 then 0x01 else 0x80000000) \<and>
   cls_pack CreateCell link_version payload PyNone = Inl StructError \<and>
   cls_pack CreateFastCell link_version payload PyNone = Inl StructError \<and>
   cls_pack Create2Cell link_version payload PyNone = Inl StructError"
  by (simp add: cls_pack_def CircuitCell_pack_def CircuitCell_pack_circ_id_def startswith_def
      CreateCell_def CreateFastCell_def Create2Cell_def Cell_pack_base_class)

text \<open>
  C5. Packing a fixed-size command with a payload within capacity should give 512 bytes
  up to link version 3 and 514 above, zero padded. Eight of the twelve fixed-size
  commands are classes derived from \<^verbatim>\<open>CircuitCell\<close>, whose \<^verbatim>\<open>_pack\<close> returns no bytes at
  all: the RELAY cell, fixed-size, is refused with the "require a circ_id" error for
  every link version and payload, with an id as without. (The four fixed-size classes
  derived from \<^verbatim>\<open>Cell\<close> do give the padded frame: \<open>cls_pack_fixed_length\<close>.)
\<close>

theorem cls_pack_RELAY_raises:
  "IS_FIXED_SIZE RelayCell \<and>
   cls_pack RelayCell link_version payload (PyId circ_id) = Inl (RequiresCircId ''RELAY'') \<and>
   cls_pack RelayCell link_version payload PyNone = Inl (RequiresCircId ''RELAY'') \<and>
   cls_pack RelayCell 4 [9] (PyId 7) = Inl (RequiresCircId ''RELAY'')"
  by (simp add: cls_pack_def CircuitCell_pack_def CircuitCell_pack_circ_id_def startswith_def
      RelayCell_def)

text \<open>
  C6. Packing a fixed-size command whose header and payload exceed the fixed length
  should raise the "too large" error with the name, the actual length and the fixed
  length. The DESTROY cell of link version 3 with a payload of 510 bytes is refused,
  but with the "require a circ_id" error, with an id as without: the length check of
  the framer is never reached by a class derived from \<^verbatim>\<open>CircuitCell\<close>. (The four
  fixed-size classes derived from \<^verbatim>\<open>Cell\<close> do raise the "too large" error:
  \<open>cls_pack_payload_too_large\<close>.)
\<close>

theorem cls_pack_DESTROY_oversize:
  "cls_pack DestroyCell 3 (replicate 510 0) (PyId 1) = Inl (RequiresCircId ''DESTROY'') \<and>
   cls_pack DestroyCell 3 (replicate 510 0) PyNone = Inl (RequiresCircId ''DESTROY'') \<and>
   cls_pack DestroyCell 3 (replicate 510 0) (PyId 1) \<noteq> Inl (PayloadTooLarge ''DESTROY'' 513 512)"
  by (simp add: cls_pack_def CircuitCell_pack_def CircuitCell_pack_circ_id_def startswith_def
      DestroyCell_def)

subsection \<open>The registry\<close>

text \<open>
  C7. The command classes are exactly the eighteen commands with their numeric values;
  the fixed-size ones and the circuit-scoped ones (the classes derived from
  \<^verbatim>\<open>CircuitCell\<close>) are exactly the listed ones, and CREATED2 is not circuit-scoped. Names
  and values are unique. The classes that the lookups scan are these eighteen and the
  two bases \<^verbatim>\<open>Cell\<close> and \<^verbatim>\<open>CircuitCell\<close>.
\<close>

theorem registry_commands:
  "map (\<lambda>c. (NAME c, VALUE c)) commands =
     [(''PADDING'', 0), (''CREATE'', 1), (''CREATED'', 2), (''RELAY'', 3), (''DESTROY'', 4),
      (''CREATE_FAST'', 5), (''CREATED_FAST'', 6), (''VERSIONS'', 7), (''NETINFO'', 8),
      (''RELAY_EARLY'', 9), (''CREATE2'', 10), (''CREATED2'', 11), (''PADDING_NEGOTIATE'', 12),
      (''VPADDING'', 128), (''CERTS'', 129), (''AUTH_CHALLENGE'', 130), (''AUTHENTICATE'', 131),
      (''AUTHORIZE'', 132)] \<and>
   length commands = 18 \<and>
   distinct (map NAME commands) \<and> distinct (map VALUE commands) \<and>
   map NAME (filter IS_FIXED_SIZE commands) =
     [''PADDING'', ''CREATE'', ''CREATED'', ''RELAY'', ''DESTROY'', ''CREATE_FAST'',
      ''CREATED_FAST'', ''NETINFO'', ''RELAY_EARLY'', ''CREATE2'', ''CREATED2'',
      ''PADDING_NEGOTIATE''] \<and>
   map NAME (filter circuit commands) =
     [''CREATE'', ''CREATED'', ''RELAY'', ''DESTROY'', ''CREATE_FAST'', ''CREATED_FAST'',
      ''RELAY_EARLY'', ''CREATE2''] \<and>
   \<not> circuit Created2Cell \<and>
   set (classes_of getmembers) = set commands \<union> {Cell, CircuitCell}"
proof -
  have "set (classes_of getmembers) = set commands \<union> {Cell, CircuitCell}"
    unfolding getmembers_sorted commands_def by (simp add: insert_commute)
  then show ?thesis
    by (simp add: commands_def class_defs)
qed

text \<open>
  C10. Looking up the name \<^verbatim>\<open>'UNKNOWN'\<close> or the value -1 does not fail, whatever the
  sentinel is: the scan reaches the base class \<^verbatim>\<open>Cell\<close> first, whose attributes are
  these defaults, although neither belongs to one of the eighteen commands.
\<close>

theorem lookup_base_class:
  "by_name undef ''UNKNOWN'' = Inr (Class Cell) \<and>
   by_value undef (- 1) = Inr (Class Cell) \<and>
   NAME Cell = ''UNKNOWN'' \<and> VALUE Cell = - 1 \<and>
   ''UNKNOWN'' \<notin> NAME ` set commands \<and> - 1 \<notin> VALUE ` set commands"
  by (simp add: by_name_def by_value_def getmembers_sorted commands_def class_defs)

text \<open>
  C8. A name that names no registered command should make \<^verbatim>\<open>by_name\<close> raise, and a
  value assigned to no registered command should make \<^verbatim>\<open>by_value\<close> raise, as their
  docstrings say of an invalid cell type. The source finds \<^verbatim>\<open>'UNKNOWN'\<close> and -1, the
  placeholders of the abstract base class, and returns that class instead of raising.
\<close>

theorem lookup_unregistered_found:
  "''UNKNOWN'' \<notin> NAME ` set commands \<and>
   by_name (PyStr ''<Undefined_ >'') ''UNKNOWN'' = Inr (Class Cell) \<and>
   by_name (PyStr ''<Undefined_ >'') ''UNKNOWN'' \<noteq> Inl (InvalidCellType ''UNKNOWN'') \<and>
   - 1 \<notin> VALUE ` set commands \<and>
   by_value (PyStr ''<Undefined_ >'') (- 1) = Inr (Class Cell) \<and>
   by_value (PyStr ''<Undefined_ >'') (- 1) \<noteq> Inl (InvalidCellValue (- 1))"
  by (simp add: by_name_def by_value_def getmembers_sorted commands_def class_defs)

text \<open>
  Apart from these two keys and the sentinel \<^verbatim>\<open>UNDEFINED\<close>, the lookups do what is
  expected of them: a key of no registered command raises the \<^verbatim>\<open>ValueError\<close> that
  carries it, and the name or the value of a registered command gives its class.
\<close>

lemma lookup_registry:
  assumes "PyStr name \<noteq> undef" and "PyInt v \<noteq> undef"
  shows "(name \<noteq> ''UNKNOWN'' \<and> name \<notin> NAME ` set commands \<longrightarrow>
            by_name undef name = Inl (InvalidCellType name)) \<and>
         (v \<noteq> - 1 \<and> v \<notin> VALUE ` set commands \<longrightarrow>
            by_value undef v = Inl (InvalidCellValue v)) \<and>
         (c \<in> set commands \<and> NAME c = name \<longrightarrow> by_name undef name = Inr (Class c)) \<and>
         (c \<in> set commands \<and> VALUE c = v \<longrightarrow> by_value undef v = Inr (Class c))"
  using assms
  by (auto simp: by_name_unregistered by_value_unregistered by_name_registered
      by_value_registered)

subsection \<open>VersionsCell\<close>

text \<open>
  C9. \<^verbatim>\<open>VersionsCell.pack([5, 3, 4])\<close> gives the payload 00 05 00 03 00 04 behind the
  header of a version 3 cell: a circuit id of two bytes (zero), the command byte 7 and
  the length 6. In general, each version is written as two bytes, most significant
  first, in the order given, with duplicates kept, and the frame is always the one of
  link version 3, as the method takes no link version.
\<close>

theorem VersionsCell_pack_bytes:
  "VersionsCell_pack [5, 3, 4] = Inr ([0, 0, 7, 0, 6] @ [0, 5, 0, 3, 0, 4]) \<and>
   ((\<forall>v\<in>set versions. 0 \<le> v \<and> v < 65536) \<and> 2 * length versions < 65536 \<longrightarrow>
      VersionsCell_pack versions =
        Inr ([0, 0, 7] @ be_bytes 2 (2 * int (length versions))
             @ concat (map (be_bytes 2) versions)))"
proof (intro conjI impI)
  show "VersionsCell_pack [5, 3, 4] = Inr ([0, 0, 7, 0, 6] @ [0, 5, 0, 3, 0, 4])"
    by (simp add: VersionsCell_pack_def Cell_pack_def struct_pack_def VersionsCell_def be_bytes_2)
next
  assume a: "(\<forall>v\<in>set versions. 0 \<le> v \<and> v < 65536) \<and> 2 * length versions < 65536"
  let ?payload = "concat (map (be_bytes 2) versions)"
  from a have p: "pack_each Pack_SHORT versions = Inr ?payload"
    by (simp add: pack_each_SHORT)
  have len: "length ?payload = 2 * length versions"
    by (rule length_concat_be_bytes)
  have "Cell_pack VersionsCell 3 ?payload 0 =
      Inr (be_bytes (if (3::int) > 3 then 4 else 2) 0 @ [word_of_int (VALUE VersionsCell)]
           @ be_bytes 2 (int (length ?payload)) @ ?payload)"
    using a by (intro Cell_pack_variable) (simp_all add: VersionsCell_def len)
  with p len show "VersionsCell_pack versions =
      Inr ([0, 0, 7] @ be_bytes 2 (2 * int (length versions)) @ ?payload)"
    by (simp add: VersionsCell_pack_def VersionsCell_def be_bytes_2)
qed

theorem VersionsCell_pack_bytes_witness:
  "VersionsCell_pack [3, 4, 5, 4] = Inr [0, 0, 7, 0, 8, 0, 3, 0, 4, 0, 5, 0, 4]"
  using VersionsCell_pack_bytes [of "[3, 4, 5, 4]"] by (simp add: be_bytes_2)

subsection \<open>Round trip\<close>

text \<open>
  The decoder applied to what the framer emits, for any class and any circuit id that
  fits its field.
\<close>

lemma unpack_Cell_pack_frame:
  assumes cls: "cls \<in> set commands"
    and undef: "PyInt (VALUE cls) \<noteq> undef"
    and cid: "0 \<le> circ_id" "circ_id < (if link_version > 3 then 2 ^ 32 else 2 ^ 16)"
    and len: "length payload \<le> (if IS_FIXED_SIZE cls then 509 else 65535)"
  shows "case Cell_pack cls link_version payload circ_id of
           Inl e \<Rightarrow> False
         | Inr bs \<Rightarrow>
             unpack undef link_version bs =
               Inr (\<lparr>cell_command = cls,
                     cell_circuit_id = (if circuit cls then Some circ_id else None),
                     cell_payload =
                       payload @ replicate (if IS_FIXED_SIZE cls then 509 - length payload else 0) 0\<rparr>,
                    length bs)"
proof -
  let ?w = "if link_version > 3 then 4 else 2 :: nat"
  let ?hdr = "be_bytes ?w circ_id"
  let ?c = "word_of_int (VALUE cls) :: byte"
  from cls have val: "0 \<le> VALUE cls" "VALUE cls < 256"
    using command_VALUE_range by blast+
  have hdr: "length ?hdr = (if link_version > 3 then 4 else 2)"
    by (simp add: length_be_bytes)
  from cid have id: "be_int ?hdr = circ_id"
    by (cases "link_version > 3") (simp_all add: be_int_be_bytes_id)
  from val have "be_int [?c] = VALUE cls"
    by (rule be_int_byte)
  moreover from cls undef have "by_value undef (VALUE cls) = Inr (Class cls)"
    by (rule by_value_registered)
  ultimately have cmd: "by_value undef (be_int [?c]) = Inr (Class cls)"
    by (simp only:)
  show ?thesis
  proof (cases "IS_FIXED_SIZE cls")
    case True
    let ?body = "payload @ replicate (509 - length payload) 0"
    from True len have body: "length ?body = 509" by simp
    from True val cid len
    have pack: "Cell_pack cls link_version payload circ_id = Inr (?hdr @ [?c] @ ?body)"
      by (simp add: Cell_pack_fixed)
    have "unpack undef link_version (?hdr @ ?c # ?body @ []) =
        Inr (\<lparr>cell_command = cls,
              cell_circuit_id = (if circuit cls then Some (be_int ?hdr) else None),
              cell_payload = ?body\<rparr>,
             if link_version > 3 then 514 else 512)"
      using hdr cmd True body by (rule unpack_fixed_frame)
    with pack id True len show ?thesis
      by (simp add: length_be_bytes)
  next
    case False
    let ?sz = "be_bytes 2 (int (length payload))"
    from False len have szv: "be_int ?sz = int (length payload)"
      by (simp add: be_int_be_bytes_id)
    have szl: "length ?sz = 2" by (simp add: length_be_bytes)
    from False val cid len
    have pack: "Cell_pack cls link_version payload circ_id = Inr (?hdr @ [?c] @ ?sz @ payload)"
      by (simp add: Cell_pack_variable)
    have "unpack undef link_version (?hdr @ ?c # ?sz @ payload @ []) =
        Inr (\<lparr>cell_command = cls,
              cell_circuit_id = (if circuit cls then Some (be_int ?hdr) else None),
              cell_payload = payload\<rparr>,
             (if link_version > 3 then 4 else 2) + 3 + length payload)"
      using hdr cmd False szl szv by (rule unpack_variable_frame)
    with pack id False show ?thesis
      by (simp add: length_be_bytes)
  qed
qed

text \<open>
  C3, as stated: unpacking what was packed gives back the cell. It fails for a
  fixed-size command whose payload is shorter than the capacity: the PADDING cells of
  version 3 with the payloads 07 and 07 00 pack to the same 512 bytes, so that no
  decoder returns both, and the decoder of the specification returns for either a
  payload of 509 bytes, the byte 07 and the 508 zero bytes behind it.
\<close>

theorem unpack_cls_pack_counterexample:
  "cls_pack PaddingCell 3 [7] Omitted = Inr ([0, 0, 0, 7] @ replicate 508 0) \<and>
   cls_pack PaddingCell 3 [7, 0] Omitted = cls_pack PaddingCell 3 [7] Omitted \<and>
   unpack (PyStr ''<Undefined_ >'') 3 ([0, 0, 0, 7] @ replicate 508 0) =
     Inr (\<lparr>cell_command = PaddingCell, cell_circuit_id = None,
           cell_payload = [7] @ replicate 508 0\<rparr>, 512) \<and>
   [7] @ replicate 508 (0::byte) \<noteq> [7]"
proof -
  have "by_value (PyStr ''<Undefined_ >'') (be_int [0::byte]) = Inr (Class PaddingCell)"
    by (simp add: by_value_def getmembers_sorted class_defs)
  moreover have "IS_FIXED_SIZE PaddingCell" "\<not> circuit PaddingCell"
    by (simp_all add: PaddingCell_def)
  ultimately have "unpack (PyStr ''<Undefined_ >'') 3 ([0, 0] @ 0 # ([7] @ replicate 508 0) @ []) =
     Inr (\<lparr>cell_command = PaddingCell, cell_circuit_id = None,
           cell_payload = [7] @ replicate 508 0\<rparr>, 512)"
    by (subst unpack_fixed_frame [where cmd = PaddingCell]) simp_all
  moreover have "cls_pack PaddingCell 3 [7] Omitted = Inr ([0, 0, 0, 7] @ replicate 508 0)"
    by (simp add: cls_pack_def Cell_pack_def struct_pack_def PaddingCell_def be_bytes_2 ZERO_def)
  moreover have "cls_pack PaddingCell 3 [7, 0] Omitted = Inr ([0, 0, 0, 7] @ replicate 508 0)"
    by (simp add: cls_pack_def Cell_pack_def struct_pack_def PaddingCell_def be_bytes_2 ZERO_def
        replicate_Suc [symmetric] del: replicate_Suc replicate.simps)
  ultimately show ?thesis
    by simp
qed

text \<open>
  C3, amended. For every registered command that is not circuit-scoped, every link
  version in 2, 3, 4, 5 and every payload within capacity (509 bytes for a fixed-size
  command, 65535 for a variable-size one), packing the cell with \<^verbatim>\<open>_pack\<close> of its class
  returns bytes, and the decoder of the specification reads from them the same command,
  no circuit id, the count of all the bytes, and as payload the original payload for a
  variable-size command, the original payload followed by the zero padding up to 509
  bytes for a fixed-size one. The value of the command is not the sentinel of the
  lookup.
\<close>

theorem unpack_cls_pack:
  assumes "cls \<in> set commands" and "\<not> circuit cls"
    and "link_version \<in> {2, 3, 4, 5}"
    and "length payload \<le> (if IS_FIXED_SIZE cls then 509 else 65535)"
    and "PyInt (VALUE cls) \<noteq> undef"
  shows "case cls_pack cls link_version payload Omitted of
           Inl e \<Rightarrow> False
         | Inr bs \<Rightarrow>
             unpack undef link_version bs =
               Inr (\<lparr>cell_command = cls, cell_circuit_id = None,
                     cell_payload =
                       payload @ replicate (if IS_FIXED_SIZE cls then 509 - length payload else 0) 0\<rparr>,
                    length bs)"
proof -
  have "(0::int) < (if link_version > 3 then 2 ^ 32 else 2 ^ 16)"
    by simp
  with assms(1,4,5)
  have "case Cell_pack cls link_version payload 0 of
           Inl e \<Rightarrow> False
         | Inr bs \<Rightarrow>
             unpack undef link_version bs =
               Inr (\<lparr>cell_command = cls,
                     cell_circuit_id = (if circuit cls then Some 0 else None),
                     cell_payload =
                       payload @ replicate (if IS_FIXED_SIZE cls then 509 - length payload else 0) 0\<rparr>,
                    length bs)"
    by (intro unpack_Cell_pack_frame) simp_all
  with assms(2) show ?thesis
    by (cases "Cell_pack cls link_version payload 0") (simp_all add: cls_pack_Cell_class)
qed

theorem unpack_cls_pack_witness:
  "cls_pack NetinfoCell 4 [1, 2] Omitted = Inr ([0, 0, 0, 0, 8, 1, 2] @ replicate 507 0) \<and>
   unpack (PyStr ''<Undefined_ >'') 4 ([0, 0, 0, 0, 8, 1, 2] @ replicate 507 0) =
     Inr (\<lparr>cell_command = NetinfoCell, cell_circuit_id = None,
           cell_payload = [1, 2] @ replicate 507 0\<rparr>, 514) \<and>
   cls_pack CertsCell 3 [1, 2] Omitted = Inr [0, 0, 129, 0, 2, 1, 2] \<and>
   unpack (PyStr ''<Undefined_ >'') 3 [0, 0, 129, 0, 2, 1, 2] =
     Inr (\<lparr>cell_command = CertsCell, cell_circuit_id = None, cell_payload = [1, 2]\<rparr>, 7)"
proof -
  have p: "cls_pack NetinfoCell 4 [1, 2] Omitted = Inr ([0, 0, 0, 0, 8, 1, 2] @ replicate 507 0)"
    by (simp add: cls_pack_def Cell_pack_def struct_pack_def NetinfoCell_def be_bytes_4 ZERO_def)
  have q: "cls_pack CertsCell 3 [1, 2] Omitted = Inr [0, 0, 129, 0, 2, 1, 2]"
    by (simp add: cls_pack_def Cell_pack_def struct_pack_def CertsCell_def be_bytes_2)
  have "NetinfoCell \<in> set commands" "CertsCell \<in> set commands"
    by (simp_all add: commands_def)
  then show ?thesis
    using unpack_cls_pack [of NetinfoCell 4 "[1, 2]" "PyStr ''<Undefined_ >''"]
      unpack_cls_pack [of CertsCell 3 "[1, 2]" "PyStr ''<Undefined_ >''"] p q
    by (simp add: NetinfoCell_def CertsCell_def)
qed

end
